theory Spec2Isabelle
  imports Main
begin

section \<open>Data model (types.go)\<close>

text \<open>
  Go strings are byte strings and are modelled by \<open>string\<close>. Go's \<open>int\<close>, \<open>int64\<close> and
  \<open>time.Duration\<close> are modelled by \<open>int\<close>; the only place where the 64-bit range matters is
  the number parser of \<open>strconv\<close>, where the bounds are written out. A \<open>time.Time\<close> is
  modelled by the integer instant it denotes. A nil pointer is \<open>None\<close>.
\<close>

typedecl any_value
  \<comment> \<open>a value of Go's \<open>any\<close>: opaque to this package\<close>

type_synonym Time = int

record EmailAddress =
  Email :: string
  Name :: string

record SendEmailRequest =
  To :: EmailAddress
  From :: EmailAddress
  Subject :: string
  HTML :: string
  Text :: string
  TemplateID :: string
  ReplyTo :: "EmailAddress option"
  UnsubscribeGroupID :: string
  Categories :: "string list"
  DynamicData :: "string \<rightharpoonup> any_value"
  ScheduledAt :: string
  CampaignName :: string
  Test :: bool

record SendEmailResponse_Data =
  EmailID :: string
  Status :: string
  QueuedAt :: Time

record SendEmailResponse =
  Success :: bool
  Response_Message :: string
  Data :: SendEmailResponse_Data

record FieldError =
  FieldError_Field :: string
  FieldError_Message :: string

record ErrorResponse =
  ErrorResponse_Success :: bool
  ErrorResponse_Message :: string
  ErrorResponse_Errors :: "FieldError list"
  ErrorResponse_RetryAfter :: int

record RateLimitInfo =
  Limit :: int
  Remaining :: int
  Reset :: int

section \<open>The typed error and its predicates\<close>

record APIError =
  StatusCode :: int
  Message :: string
  Errors :: "FieldError list"
  RetryAfter :: int
  RateLimitInfo :: "RateLimitInfo option"

text \<open>The verb \<open>%d\<close> of \<open>fmt\<close>: the decimal digits, with a minus sign for a negative number.\<close>

fun formatNat :: "nat \<Rightarrow> string" where
  "formatNat n =
     (if n < 10 then [''0123456789'' ! n]
      else formatNat (n div 10) @ [''0123456789'' ! (n mod 10)])"

declare formatNat.simps [simp del]

definition formatInt :: "int \<Rightarrow> string" where
  "formatInt i = (if i < 0 then ''-'' @ formatNat (nat (- i)) else formatNat (nat i))"

fun strings_Join :: "string list \<Rightarrow> string \<Rightarrow> string" where
  "strings_Join [] sep = ''''"
| "strings_Join [x] sep = x"
| "strings_Join (x # y # ys) sep = x @ sep @ strings_Join (y # ys) sep"

definition APIError_Error :: "APIError \<Rightarrow> string" where
  "APIError_Error e =
     (if length (Errors e) > 0 then
        (let fields = map (\<lambda>err. FieldError_Field err @ '': '' @ FieldError_Message err) (Errors e)
         in ''autosend API error (status '' @ formatInt (StatusCode e) @ ''): '' @ Message e
              @ '' - '' @ strings_Join fields '', '')
      else if RetryAfter e > 0 then
        ''autosend API error (status '' @ formatInt (StatusCode e) @ ''): '' @ Message e
          @ '' (retry after '' @ formatInt (RetryAfter e) @ '' seconds)''
      else ''autosend API error (status '' @ formatInt (StatusCode e) @ ''): '' @ Message e)"

definition IsRateLimitError :: "APIError \<Rightarrow> bool" where
  "IsRateLimitError e = (StatusCode e = 429)"

definition IsValidationError :: "APIError \<Rightarrow> bool" where
  "IsValidationError e = (StatusCode e = 400)"

definition IsAuthenticationError :: "APIError \<Rightarrow> bool" where
  "IsAuthenticationError e = (StatusCode e = 401)"

definition IsForbiddenError :: "APIError \<Rightarrow> bool" where
  "IsForbiddenError e = (StatusCode e = 403)"

definition IsServerError :: "APIError \<Rightarrow> bool" where
  "IsServerError e = (StatusCode e \<ge> 500 \<and> StatusCode e < 600)"

definition GetRetryAfter :: "APIError \<Rightarrow> int" where
  "GetRetryAfter e = (if IsRateLimitError e then RetryAfter e else 0)"

section \<open>Error values\<close>

text \<open>
  A Go \<open>error\<close> returned by this package is one of: the result of \<open>fmt.Errorf\<close> without
  \<open>%w\<close> (its formatted text), the result of \<open>fmt.Errorf\<close> with a trailing \<open>%w\<close> (the text
  before the verb and the wrapped cause), an error made by the standard library (its text),
  or a pointer to an \<open>APIError\<close>.
\<close>

datatype error =
    Errorf string
  | Wrapf string error
  | Foreign string
  | APIErr APIError

fun error_text :: "error \<Rightarrow> string" where
  "error_text (Errorf s) = s"
| "error_text (Wrapf prefix cause) = prefix @ error_text cause"
| "error_text (Foreign s) = s"
| "error_text (APIErr e) = APIError_Error e"

section \<open>Validation (email.go)\<close>

definition validateSendEmailRequest :: "SendEmailRequest option \<Rightarrow> error option" where
  "validateSendEmailRequest req =
     (case req of
        None \<Rightarrow> Some (Errorf ''request cannot be nil'')
      | Some r \<Rightarrow>
          if Email (To r) = '''' then Some (Errorf ''to.email is required'')
          else if Email (From r) = '''' then Some (Errorf ''from.email is required'')
          else if TemplateID r = '''' \<and> HTML r = '''' \<and> Text r = '''' then
            Some (Errorf ''either templateId or html/text content must be provided'')
          else if TemplateID r = '''' \<and> Subject r = '''' then
            Some (Errorf ''subject is required when not using a template'')
          else None)"

section \<open>Client configuration (client.go and the functional options)\<close>

text \<open>
  The package holds its transport through a pointer to an \<open>http.Client\<close>, and the option
  \<open>WithTimeout\<close> writes through that pointer. The store of \<open>http.Client\<close> objects is a
  list; an address is an index into it and allocation appends. Of an \<open>http.Client\<close> the
  package touches the field \<open>Timeout\<close> only; its other fields (\<open>Transport\<close>,
  \<open>CheckRedirect\<close>, \<open>Jar\<close>) are one opaque field, 0 standing for their zero values.
\<close>

record http_Client =
  http_Other :: nat
  http_Timeout :: int

type_synonym heap = "http_Client list"

definition new_http_Client :: "http_Client \<Rightarrow> heap \<Rightarrow> nat \<times> heap" where
  "new_http_Client v h = (length h, h @ [v])"

record Client =
  apiKey :: string
  baseURL :: string
  httpClient :: "nat option"

record Config =
  APIKey :: string
  BaseURL :: string
  HTTPClient :: "nat option"
  Timeout :: int

definition DefaultBaseURL :: string where
  "DefaultBaseURL = ''https://api.autosend.com/v1''"

definition Second :: int where
  "Second = 1000000000"

definition DefaultTimeout :: int where
  "DefaultTimeout = 30 * Second"

definition NewClient :: "string \<Rightarrow> heap \<Rightarrow> Client \<times> heap" where
  "NewClient key h =
     (let (p, h') = new_http_Client \<lparr>http_Other = 0, http_Timeout = DefaultTimeout\<rparr> h
      in (\<lparr>apiKey = key, baseURL = DefaultBaseURL, httpClient = Some p\<rparr>, h'))"

definition NewClientWithConfig :: "Config \<Rightarrow> heap \<Rightarrow> Client \<times> heap" where
  "NewClientWithConfig config h =
     (let config1 = (if BaseURL config = '''' then config\<lparr>BaseURL := DefaultBaseURL\<rparr>
                     else config);
          (config2, h') =
            (if HTTPClient config1 = None then
               (let timeout = Timeout config1;
                    timeout' = (if timeout = 0 then DefaultTimeout else timeout);
                    (p, h1) = new_http_Client \<lparr>http_Other = 0, http_Timeout = timeout'\<rparr> h
                in (config1\<lparr>HTTPClient := Some p\<rparr>, h1))
             else (config1, h))
      in (\<lparr>apiKey = APIKey config2, baseURL = BaseURL config2,
           httpClient = HTTPClient config2\<rparr>, h'))"

text \<open>
  A \<open>ClientOption\<close> is a function on the client under construction. It may write through
  the client's pointer, so it takes and returns the store too; \<open>None\<close> is a panic (a nil
  pointer dereference).
\<close>

type_synonym ClientOption = "Client \<times> heap \<Rightarrow> (Client \<times> heap) option"

definition WithBaseURL :: "string \<Rightarrow> ClientOption" where
  "WithBaseURL url = (\<lambda>(c, h). Some (c\<lparr>baseURL := url\<rparr>, h))"

definition WithHTTPClient :: "nat option \<Rightarrow> ClientOption" where
  "WithHTTPClient hc = (\<lambda>(c, h). Some (c\<lparr>httpClient := hc\<rparr>, h))"

definition WithTimeout :: "int \<Rightarrow> ClientOption" where
  "WithTimeout timeout =
     (\<lambda>(c, h). case httpClient c of
                  None \<Rightarrow> None
                | Some p \<Rightarrow> Some (c, h[p := (h ! p)\<lparr>http_Timeout := timeout\<rparr>]))"

fun applyOptions :: "ClientOption list \<Rightarrow> Client \<times> heap \<Rightarrow> (Client \<times> heap) option" where
  "applyOptions [] s = Some s"
| "applyOptions (opt # opts) s =
     (case opt s of None \<Rightarrow> None | Some s' \<Rightarrow> applyOptions opts s')"

definition NewClientWithOptions ::
  "string \<Rightarrow> ClientOption list \<Rightarrow> heap \<Rightarrow> (Client \<times> heap) option" where
  "NewClientWithOptions key opts h =
     (let (p, h') = new_http_Client \<lparr>http_Other = 0, http_Timeout = DefaultTimeout\<rparr> h
      in applyOptions opts
           (\<lparr>apiKey = key, baseURL = DefaultBaseURL, httpClient = Some p\<rparr>, h'))"

section \<open>The standard library as the package uses it\<close>

subsection \<open>HTTP headers\<close>

text \<open>
  An \<open>http.Header\<close> maps a canonical key to its list of values. \<open>Get\<close> and \<open>Set\<close>
  canonicalise the key they are given: if every byte is a token byte, the first letter and
  each letter after a hyphen become upper case and all other letters lower case; a key
  with any other byte is left as it is.
\<close>

type_synonym Header = "string \<rightharpoonup> string list"

definition lowerLetters :: string where
  "lowerLetters = ''abcdefghijklmnopqrstuvwxyz''"

definition upperLetters :: string where
  "upperLetters = ''ABCDEFGHIJKLMNOPQRSTUVWXYZ''"

definition toUpper :: "char \<Rightarrow> char" where
  "toUpper c = (case map_of (zip lowerLetters upperLetters) c of Some u \<Rightarrow> u | None \<Rightarrow> c)"

definition toLower :: "char \<Rightarrow> char" where
  "toLower c = (case map_of (zip upperLetters lowerLetters) c of Some l \<Rightarrow> l | None \<Rightarrow> c)"

definition validHeaderFieldByte :: "char \<Rightarrow> bool" where
  "validHeaderFieldByte c =
     (c \<in> set (lowerLetters @ upperLetters @ ''0123456789'' @ ''!#$%&*+-.^_`|~'' @ [CHR 0x27]))"

fun canonicalLetters :: "bool \<Rightarrow> string \<Rightarrow> string" where
  "canonicalLetters upper [] = []"
| "canonicalLetters upper (c # cs) =
     (let c' = (if upper then toUpper c else toLower c)
      in c' # canonicalLetters (c' = CHR ''-'') cs)"

definition CanonicalMIMEHeaderKey :: "string \<Rightarrow> string" where
  "CanonicalMIMEHeaderKey s =
     (if list_all validHeaderFieldByte s then canonicalLetters True s else s)"

definition Header_Get :: "Header \<Rightarrow> string \<Rightarrow> string" where
  "Header_Get h key =
     (case h (CanonicalMIMEHeaderKey key) of
        None \<Rightarrow> ''''
      | Some [] \<Rightarrow> ''''
      | Some (v # vs) \<Rightarrow> v)"

definition Header_Set :: "Header \<Rightarrow> string \<Rightarrow> string \<Rightarrow> Header" where
  "Header_Set h key v = h(CanonicalMIMEHeaderKey key \<mapsto> [v])"

subsection \<open>Decimal parsing (strconv)\<close>

text \<open>
  \<open>ParseUint\<close> and \<open>ParseInt\<close> in base 10. Each returns a value together with the kind
  of its error, if any. A syntax error returns 0; a range error returns the largest
  magnitude of the requested size and sign. \<open>Atoi\<close> is \<open>ParseInt\<close> at the size of
  \<open>int\<close>, which is taken to be 64 bits.
\<close>

datatype NumError = ErrSyntax | ErrRange

definition digitValue :: "char \<Rightarrow> nat" where
  "digitValue c = length (takeWhile (\<lambda>x. x \<noteq> c) ''0123456789'')"

fun ParseUint_loop :: "nat \<Rightarrow> nat \<Rightarrow> string \<Rightarrow> nat \<times> NumError option" where
  "ParseUint_loop maxVal n [] = (n, None)"
| "ParseUint_loop maxVal n (c # cs) =
     (if c \<notin> set ''0123456789'' then (0, Some ErrSyntax)
      else if n \<ge> (2 ^ 64 - 1) div 10 + 1 then (maxVal, Some ErrRange)
      else
        (let n10 = n * 10;
             n1 = (n10 + digitValue c) mod 2 ^ 64
         in if n1 < n10 \<or> n1 > maxVal then (maxVal, Some ErrRange)
            else ParseUint_loop maxVal n1 cs))"

definition ParseUint :: "string \<Rightarrow> nat \<Rightarrow> nat \<times> NumError option" where
  "ParseUint s bitSize =
     (if s = '''' then (0, Some ErrSyntax) else ParseUint_loop (2 ^ bitSize - 1) 0 s)"

definition ParseInt :: "string \<Rightarrow> nat \<Rightarrow> int \<times> NumError option" where
  "ParseInt s bitSize =
     (if s = '''' then (0, Some ErrSyntax)
      else
        (let neg = (hd s = CHR ''-'');
             s' = (if hd s = CHR ''+'' \<or> hd s = CHR ''-'' then tl s else s);
             (un, err) = ParseUint s' bitSize
         in if err = Some ErrSyntax then (0, Some ErrSyntax)
            else
              (let cutoff = (2::nat) ^ (bitSize - 1)
               in if \<not> neg \<and> un \<ge> cutoff then (int cutoff - 1, Some ErrRange)
                  else if neg \<and> un > cutoff then (- int cutoff, Some ErrRange)
                  else (if neg then - int un else int un, None))))"

definition Atoi :: "string \<Rightarrow> int \<times> NumError option" where
  "Atoi s = ParseInt s 64"

subsection \<open>Requests, responses and the outside world\<close>

record Request =
  Method :: string
  URL :: string
  Header :: Header
  Body :: "string option"

text \<open>
  Of a response the package reads the status code, the headers and the body. The body is
  what \<open>io.ReadAll\<close> gives on it: the bytes, or the error of the read.
\<close>

record Response =
  Response_StatusCode :: int
  Response_Header :: Header
  Response_Body :: "error + string"

text \<open>
  What lies outside the package is a parameter of the model: the JSON encoder and the two
  decoders, the checks of \<open>http.NewRequestWithContext\<close> (method, context and URL) and the
  transport behind \<open>http.Client.Do\<close>, which sees the \<open>http.Client\<close> it is called on, the
  context and the request. The context is opaque to the package.
\<close>

text \<open>
  In doRequest below, the request made by \<open>http.NewRequestWithContext\<close> starts with an
  empty header, and the calls of \<open>req.Header.Set\<close> update that one header map in turn.
\<close>

record 'ctx env =
  json_Marshal :: "SendEmailRequest \<Rightarrow> error + string"
  NewRequest_error :: "'ctx \<Rightarrow> string \<Rightarrow> string \<Rightarrow> error option"
  http_Do :: "http_Client \<Rightarrow> 'ctx \<Rightarrow> Request \<Rightarrow> error + Response"
  Unmarshal_SendEmailResponse :: "string \<Rightarrow> error + SendEmailResponse"
  Unmarshal_ErrorResponse :: "string \<Rightarrow> error + ErrorResponse"

text \<open>
  A call returns a value, returns an error, or panics. Every function that may reach the
  transport also threads the list of requests handed to it so far.
\<close>

datatype 'a result = Panic | Err error | Ok 'a

section \<open>Request pipeline (client.go, email.go)\<close>

definition doRequest ::
  "'ctx env \<Rightarrow> heap \<Rightarrow> Client \<Rightarrow> 'ctx \<Rightarrow> string \<Rightarrow> string \<Rightarrow> SendEmailRequest option
     \<Rightarrow> string \<Rightarrow> Request list \<Rightarrow> Response result \<times> Request list" where
  "doRequest env h c ctx method path body idempotencyKey sent =
     (case (case body of
              None \<Rightarrow> Inr None
            | Some b \<Rightarrow> (case json_Marshal env b of
                          Inl err \<Rightarrow> Inl err
                        | Inr jsonBody \<Rightarrow> Inr (Some jsonBody))) of
        Inl err \<Rightarrow> (Err (Wrapf ''failed to marshal request body: '' err), sent)
      | Inr bodyReader \<Rightarrow>
          (let url = baseURL c @ path
           in case NewRequest_error env ctx method url of
                Some err \<Rightarrow> (Err (Wrapf ''failed to create request: '' err), sent)
              | None \<Rightarrow>
                  (let hdr0 = Map.empty;
                       hdr1 = Header_Set hdr0 ''Authorization'' (''Bearer '' @ apiKey c);
                       hdr2 = Header_Set hdr1 ''Content-Type'' ''application/json'';
                       hdr3 = Header_Set hdr2 ''User-Agent'' ''autosend-go/1.0.0'';
                       hdr = (if idempotencyKey \<noteq> '''' then
                                Header_Set hdr3 ''Idempotency-Key'' idempotencyKey
                              else hdr3);
                       req = \<lparr>Method = (if method = '''' then ''GET'' else method), URL = url,
                              Header = hdr, Body = bodyReader\<rparr>
                   in case httpClient c of
                        None \<Rightarrow> (Panic, sent)
                      | Some p \<Rightarrow>
                          (case http_Do env (h ! p) ctx req of
                             Inl err \<Rightarrow> (Err (Wrapf ''request failed: '' err), sent @ [req])
                           | Inr resp \<Rightarrow> (Ok resp, sent @ [req])))))"

definition parseRateLimitHeaders :: "Header \<Rightarrow> RateLimitInfo" where
  "parseRateLimitHeaders headers =
     (let info0 = \<lparr>Limit = 0, Remaining = 0, Reset = 0\<rparr>;
          limit = Header_Get headers ''X-RateLimit-Limit'';
          info1 = (if limit \<noteq> '''' then info0\<lparr>Limit := fst (Atoi limit)\<rparr> else info0);
          remaining = Header_Get headers ''X-RateLimit-Remaining'';
          info2 = (if remaining \<noteq> '''' then info1\<lparr>Remaining := fst (Atoi remaining)\<rparr>
                   else info1);
          reset = Header_Get headers ''X-RateLimit-Reset'';
          info3 = (if reset \<noteq> '''' then info2\<lparr>Reset := fst (ParseInt reset 64)\<rparr>
                   else info2)
      in info3)"

definition handleErrorResponse :: "'ctx env \<Rightarrow> Response \<Rightarrow> error" where
  "handleErrorResponse env resp =
     (case Response_Body resp of
        Inl err \<Rightarrow> Wrapf ''failed to read error response: '' err
      | Inr body \<Rightarrow>
          (case Unmarshal_ErrorResponse env body of
             Inl err \<Rightarrow>
               Errorf (''API error (status '' @ formatInt (Response_StatusCode resp) @ ''): ''
                         @ body)
           | Inr errResp \<Rightarrow>
               (let rateLimitInfo = parseRateLimitHeaders (Response_Header resp)
                in APIErr \<lparr>StatusCode = Response_StatusCode resp,
                           Message = ErrorResponse_Message errResp,
                           Errors = ErrorResponse_Errors errResp,
                           RetryAfter = ErrorResponse_RetryAfter errResp,
                           RateLimitInfo = Some rateLimitInfo\<rparr>)))"

definition SendEmailWithIdempotency ::
  "'ctx env \<Rightarrow> heap \<Rightarrow> Client \<Rightarrow> 'ctx \<Rightarrow> SendEmailRequest option \<Rightarrow> string \<Rightarrow> Request list
     \<Rightarrow> SendEmailResponse result \<times> Request list" where
  "SendEmailWithIdempotency env h c ctx req idempotencyKey sent =
     (case validateSendEmailRequest req of
        Some err \<Rightarrow> (Err err, sent)
      | None \<Rightarrow>
          (case doRequest env h c ctx ''POST'' ''/mails/send'' req idempotencyKey sent of
             (Panic, sent') \<Rightarrow> (Panic, sent')
           | (Err err, sent') \<Rightarrow> (Err err, sent')
           | (Ok resp, sent') \<Rightarrow>
               if Response_StatusCode resp \<noteq> 200 then
                 (Err (handleErrorResponse env resp), sent')
               else
                 (case Response_Body resp of
                    Inl err \<Rightarrow> (Err (Wrapf ''failed to read response body: '' err), sent')
                  | Inr body \<Rightarrow>
                      (case Unmarshal_SendEmailResponse env body of
                         Inl err \<Rightarrow> (Err (Wrapf ''failed to parse response: '' err), sent')
                       | Inr emailResp \<Rightarrow> (Ok emailResp, sent')))))"

definition SendEmail ::
  "'ctx env \<Rightarrow> heap \<Rightarrow> Client \<Rightarrow> 'ctx \<Rightarrow> SendEmailRequest option \<Rightarrow> Request list
     \<Rightarrow> SendEmailResponse result \<times> Request list" where
  "SendEmail env h c ctx req sent = SendEmailWithIdempotency env h c ctx req '''' sent"

text \<open>
  \<open>errors.As\<close> with a target of type \<open>*APIError\<close>, as the callers of the package
  inspect an error: it follows the chain of wrapped causes.
\<close>

fun asAPIError :: "error \<Rightarrow> APIError option" where
  "asAPIError (APIErr e) = Some e"
| "asAPIError (Wrapf prefix cause) = asAPIError cause"
| "asAPIError (Errorf s) = None"
| "asAPIError (Foreign s) = None"

section \<open>Test doubles\<close>

text \<open>
  Concrete inputs on which the model is run: a request that uses a template, the client
  that NewClient builds in an empty store, and an outside world whose transport answers
  every request with one given response and whose decoders know two JSON documents.
\<close>

definition fixture_request :: SendEmailRequest where
  "fixture_request =
     \<lparr>To = \<lparr>Email = ''customer@example.com'', Name = ''''\<rparr>,
      From = \<lparr>Email = ''hello@example.com'', Name = ''''\<rparr>,
      Subject = '''', HTML = '''', Text = '''', TemplateID = ''tmpl_1'',
      ReplyTo = None, UnsubscribeGroupID = '''', Categories = [],
      DynamicData = Map.empty, ScheduledAt = '''', CampaignName = '''', Test = False\<rparr>"

definition fixture_client :: Client where
  "fixture_client = \<lparr>apiKey = ''key'', baseURL = DefaultBaseURL, httpClient = Some 0\<rparr>"

definition fixture_heap :: heap where
  "fixture_heap = [\<lparr>http_Other = 0, http_Timeout = DefaultTimeout\<rparr>]"

definition fixture_env :: "Response \<Rightarrow> unit env" where
  \<open>fixture_env resp =
     \<lparr>json_Marshal = (\<lambda>r. Inr ''{}''),
      NewRequest_error = (\<lambda>ctx method url. None),
      http_Do = (\<lambda>hc ctx req. Inr resp),
      Unmarshal_SendEmailResponse =
        (\<lambda>b. if b = ''{"success":false}'' then
               Inr \<lparr>Success = False, Response_Message = '''',
                    Data = \<lparr>EmailID = '''', Status = '''', QueuedAt = 0\<rparr>\<rparr>
             else Inl (Foreign ''invalid character'')),
      Unmarshal_ErrorResponse =
        (\<lambda>b. if b = ''{"success":false,"message":"rate limited","retryAfter":5}'' then
               Inr \<lparr>ErrorResponse_Success = False, ErrorResponse_Message = ''rate limited'',
                    ErrorResponse_Errors = [], ErrorResponse_RetryAfter = 5\<rparr>
             else Inl (Foreign ''invalid character''))\<rparr>\<close>

definition fixture_response :: "int \<Rightarrow> Header \<Rightarrow> string \<Rightarrow> Response" where
  "fixture_response status hs body =
     \<lparr>Response_StatusCode = status, Response_Header = hs, Response_Body = Inr body\<rparr>"

definition fixture_world :: "unit env" where
  "fixture_world = fixture_env (fixture_response 200 Map.empty ''{}'')"

section \<open>Properties\<close>

subsection \<open>Auxiliary facts\<close>

text \<open>The header names of the package and their canonical forms.\<close>

lemma canonical_Authorization: "CanonicalMIMEHeaderKey ''Authorization'' = ''Authorization''"
  by code_simp
lemma canonical_Content_Type: "CanonicalMIMEHeaderKey ''Content-Type'' = ''Content-Type''"
  by code_simp
lemma canonical_User_Agent: "CanonicalMIMEHeaderKey ''User-Agent'' = ''User-Agent''"
  by code_simp
lemma canonical_Idempotency_Key: "CanonicalMIMEHeaderKey ''Idempotency-Key'' = ''Idempotency-Key''"
  by code_simp
lemma canonical_Limit: "CanonicalMIMEHeaderKey ''X-RateLimit-Limit'' = ''X-Ratelimit-Limit''"
  by code_simp
lemma canonical_Remaining: "CanonicalMIMEHeaderKey ''X-RateLimit-Remaining'' = ''X-Ratelimit-Remaining''"
  by code_simp
lemma canonical_Reset: "CanonicalMIMEHeaderKey ''X-RateLimit-Reset'' = ''X-Ratelimit-Reset''"
  by code_simp

lemmas canonical_keys = canonical_Authorization canonical_Content_Type canonical_User_Agent
  canonical_Idempotency_Key canonical_Limit canonical_Remaining canonical_Reset



lemma Header_Get_absent: "hs (CanonicalMIMEHeaderKey key) = None \<Longrightarrow> Header_Get hs key = ''''"
  by (simp add: Header_Get_def)


text \<open>What doRequest returns and what it hands to the transport.\<close>

lemma request_headers:
  "hdr = (if key \<noteq> '''' then
            Header_Set (Header_Set (Header_Set (Header_Set Map.empty ''Authorization'' a)
               ''Content-Type'' b) ''User-Agent'' u) ''Idempotency-Key'' key
          else Header_Set (Header_Set (Header_Set Map.empty ''Authorization'' a)
               ''Content-Type'' b) ''User-Agent'' u) \<Longrightarrow>
   hdr ''Authorization'' = Some [a] \<and> hdr ''Content-Type'' = Some [b]
   \<and> hdr ''User-Agent'' = Some [u]
   \<and> hdr ''Idempotency-Key'' = (if key = '''' then None else Some [key])"
  by (simp add: Header_Set_def canonical_keys)

lemma doRequest_outcomes:
  "(\<exists>err. doRequest env h c ctx method path body key sent
            = (Err (Wrapf ''failed to marshal request body: '' err), sent))
   \<or> (\<exists>err. doRequest env h c ctx method path body key sent
            = (Err (Wrapf ''failed to create request: '' err), sent))
   \<or> doRequest env h c ctx method path body key sent = (Panic, sent)
   \<or> (\<exists>bodyReader res.
        doRequest env h c ctx method path body key sent =
          (res, sent @
            [\<lparr>Method = (if method = '''' then ''GET'' else method), URL = baseURL c @ path,
              Header = (if key \<noteq> '''' then
                Header_Set (Header_Set (Header_Set (Header_Set Map.empty ''Authorization''
                     (''Bearer '' @ apiKey c))
                   ''Content-Type'' ''application/json'') ''User-Agent'' ''autosend-go/1.0.0'')
                   ''Idempotency-Key'' key
              else Header_Set (Header_Set (Header_Set Map.empty ''Authorization''
                     (''Bearer '' @ apiKey c))
                   ''Content-Type'' ''application/json'') ''User-Agent'' ''autosend-go/1.0.0''),
              Body = bodyReader\<rparr>])
        \<and> ((\<exists>err. res = Err (Wrapf ''request failed: '' err)) \<or> (\<exists>resp. res = Ok resp)))"
proof (cases "case body of None \<Rightarrow> Inr None
               | Some b \<Rightarrow> (case json_Marshal env b of
                             Inl err \<Rightarrow> Inl err
                           | Inr jsonBody \<Rightarrow> Inr (Some jsonBody))")
  case (Inl err)
  then show ?thesis by (simp add: doRequest_def)
next
  case (Inr bodyReader)
  note m = this
  show ?thesis
  proof (cases "NewRequest_error env ctx method (baseURL c @ path)")
    case (Some err)
    with m show ?thesis by (simp add: doRequest_def)
  next
    case None
    note n = this
    show ?thesis
    proof (cases "httpClient c")
      case None
      with m n show ?thesis by (simp add: doRequest_def)
    next
      case (Some p)
      with m n show ?thesis
        by (simp add: doRequest_def Let_def split: sum.split)
    qed
  qed
qed

lemma doRequest_sent:
  "snd (doRequest env h c ctx method path body key sent) = sent
   \<or> (\<exists>req. snd (doRequest env h c ctx method path body key sent) = sent @ [req]
        \<and> Header req ''Authorization'' = Some [''Bearer '' @ apiKey c]
        \<and> Header req ''Content-Type'' = Some [''application/json'']
        \<and> Header req ''User-Agent'' = Some [''autosend-go/1.0.0'']
        \<and> Header req ''Idempotency-Key'' = (if key = '''' then None else Some [key]))"
proof -
  define hdr where "hdr = (if key \<noteq> '''' then
                Header_Set (Header_Set (Header_Set (Header_Set Map.empty ''Authorization''
                     (''Bearer '' @ apiKey c))
                   ''Content-Type'' ''application/json'') ''User-Agent'' ''autosend-go/1.0.0'')
                   ''Idempotency-Key'' key
              else Header_Set (Header_Set (Header_Set Map.empty ''Authorization''
                     (''Bearer '' @ apiKey c))
                   ''Content-Type'' ''application/json'') ''User-Agent'' ''autosend-go/1.0.0'')"
  note facts = request_headers [OF hdr_def]
  from doRequest_outcomes [of env h c ctx "method" path body key sent]
  consider "snd (doRequest env h c ctx method path body key sent) = sent"
    | bodyReader where "snd (doRequest env h c ctx method path body key sent) = sent @
            [\<lparr>Method = (if method = '''' then ''GET'' else method), URL = baseURL c @ path,
              Header = hdr, Body = bodyReader\<rparr>]"
    unfolding hdr_def by fastforce
  then show ?thesis
  proof cases
    case 1
    then show ?thesis by blast
  next
    case 2
    have "Header \<lparr>Method = (if method = '''' then ''GET'' else method), URL = baseURL c @ path,
              Header = hdr, Body = bodyReader\<rparr> = hdr"
      by simp
    with 2 facts show ?thesis by metis
  qed
qed


lemma doRequest_dispatch:
  "(case body of None \<Rightarrow> True | Some b \<Rightarrow> \<exists>j. json_Marshal env b = Inr j) \<Longrightarrow>
   NewRequest_error env ctx meth (baseURL c @ path) = None \<Longrightarrow>
   httpClient c = Some p \<Longrightarrow>
   length (snd (doRequest env h c ctx meth path body key sent)) = Suc (length sent)"
proof -
  assume a: "case body of None \<Rightarrow> True | Some b \<Rightarrow> \<exists>j. json_Marshal env b = Inr j"
    and n: "NewRequest_error env ctx meth (baseURL c @ path) = None"
    and p: "httpClient c = Some p"
  from a obtain bodyReader where m: "(case body of None \<Rightarrow> Inr None
               | Some b \<Rightarrow> (case json_Marshal env b of
                             Inl err \<Rightarrow> Inl err
                           | Inr jsonBody \<Rightarrow> Inr (Some jsonBody))) = Inr bodyReader"
    by (cases body) auto
  from m n p show ?thesis
    by (simp add: doRequest_def Let_def split: sum.split)
qed

text \<open>The branches of SendEmailWithIdempotency.\<close>

lemma SendEmailWithIdempotency_sent:
  "snd (SendEmailWithIdempotency env h c ctx req key sent) = sent
   \<or> snd (SendEmailWithIdempotency env h c ctx req key sent)
       = snd (doRequest env h c ctx ''POST'' ''/mails/send'' req key sent)"
proof (cases "validateSendEmailRequest req")
  case (Some err)
  then show ?thesis by (simp add: SendEmailWithIdempotency_def)
next
  case None
  obtain res sent' where
    d: "doRequest env h c ctx ''POST'' ''/mails/send'' req key sent = (res, sent')"
    by (cases "doRequest env h c ctx ''POST'' ''/mails/send'' req key sent") blast
  with None show ?thesis
    by (cases res) (simp_all add: SendEmailWithIdempotency_def split: sum.split)
qed












subsection \<open>Classification predicates\<close>

text \<open>
  Claim C7. For every APIError each classification predicate depends on the status code
  alone: two errors with the same status code are classified alike, a rate-limit error is
  one with status 429, a validation error one with status 400, an authentication error one
  with status 401, a forbidden error one with status 403, a server error one with a status
  from 500 to 599. GetRetryAfter returns the stored RetryAfter when the error is a
  rate-limit error and 0 otherwise.
\<close>

theorem APIError_predicates:
  "IsRateLimitError e = (StatusCode e = 429)
   \<and> IsValidationError e = (StatusCode e = 400)
   \<and> IsAuthenticationError e = (StatusCode e = 401)
   \<and> IsForbiddenError e = (StatusCode e = 403)
   \<and> IsServerError e = (500 \<le> StatusCode e \<and> StatusCode e < 600)
   \<and> (StatusCode e = StatusCode e' \<longrightarrow>
        IsRateLimitError e = IsRateLimitError e'
        \<and> IsValidationError e = IsValidationError e'
        \<and> IsAuthenticationError e = IsAuthenticationError e'
        \<and> IsForbiddenError e = IsForbiddenError e'
        \<and> IsServerError e = IsServerError e')
   \<and> (IsRateLimitError e \<longrightarrow> GetRetryAfter e = RetryAfter e)
   \<and> (\<not> IsRateLimitError e \<longrightarrow> GetRetryAfter e = 0)"
  by (simp add: IsRateLimitError_def IsValidationError_def IsAuthenticationError_def
      IsForbiddenError_def IsServerError_def GetRetryAfter_def)

theorem APIError_predicates_witness:
  "IsRateLimitError \<lparr>StatusCode = 429, Message = ''rate limited'', Errors = [],
       RetryAfter = 5, RateLimitInfo = None\<rparr>
   \<and> GetRetryAfter \<lparr>StatusCode = 429, Message = ''rate limited'', Errors = [],
       RetryAfter = 5, RateLimitInfo = None\<rparr> = 5
   \<and> \<not> IsRateLimitError \<lparr>StatusCode = 503, Message = ''unavailable'', Errors = [],
       RetryAfter = 7, RateLimitInfo = None\<rparr>
   \<and> IsServerError \<lparr>StatusCode = 503, Message = ''unavailable'', Errors = [],
       RetryAfter = 7, RateLimitInfo = None\<rparr>
   \<and> GetRetryAfter \<lparr>StatusCode = 503, Message = ''unavailable'', Errors = [],
       RetryAfter = 7, RateLimitInfo = None\<rparr> = 0"
  using APIError_predicates [of
      "\<lparr>StatusCode = 429, Message = ''rate limited'', Errors = [],
        RetryAfter = 5, RateLimitInfo = None\<rparr>"
      "\<lparr>StatusCode = 429, Message = ''again'', Errors = [],
        RetryAfter = 0, RateLimitInfo = None\<rparr>"]
    APIError_predicates [of
      "\<lparr>StatusCode = 503, Message = ''unavailable'', Errors = [],
        RetryAfter = 7, RateLimitInfo = None\<rparr>"
      "\<lparr>StatusCode = 503, Message = ''down'', Errors = [],
        RetryAfter = 0, RateLimitInfo = None\<rparr>"]
  by simp

subsection \<open>Validation\<close>

text \<open>
  Claim C4. validateSendEmailRequest is a function of the request alone and performs five
  checks in order, stopping at the first that fails: the request is not nil, to.email is
  not empty, from.email is not empty, one of templateId, html and text is not empty, and
  the subject is not empty when templateId is empty. Each check has its own message, the
  five messages are pairwise different, and the result is nil exactly when all five checks
  pass. So every request with to.email, from.email and templateId set passes, whatever
  html, text and subject are.
\<close>

theorem validateSendEmailRequest_checks:
  "(validateSendEmailRequest req = Some (Errorf ''request cannot be nil'') \<longleftrightarrow> req = None)
   \<and> (validateSendEmailRequest (Some r) = Some (Errorf ''to.email is required'')
        \<longleftrightarrow> Email (To r) = '''')
   \<and> (validateSendEmailRequest (Some r) = Some (Errorf ''from.email is required'')
        \<longleftrightarrow> Email (To r) \<noteq> '''' \<and> Email (From r) = '''')
   \<and> (validateSendEmailRequest (Some r)
          = Some (Errorf ''either templateId or html/text content must be provided'')
        \<longleftrightarrow> Email (To r) \<noteq> '''' \<and> Email (From r) \<noteq> ''''
            \<and> TemplateID r = '''' \<and> HTML r = '''' \<and> Text r = '''')
   \<and> (validateSendEmailRequest (Some r)
          = Some (Errorf ''subject is required when not using a template'')
        \<longleftrightarrow> Email (To r) \<noteq> '''' \<and> Email (From r) \<noteq> ''''
            \<and> (TemplateID r \<noteq> '''' \<or> HTML r \<noteq> '''' \<or> Text r \<noteq> '''')
            \<and> TemplateID r = '''' \<and> Subject r = '''')
   \<and> (validateSendEmailRequest req = None
        \<longleftrightarrow> (\<exists>q. req = Some q \<and> Email (To q) \<noteq> '''' \<and> Email (From q) \<noteq> ''''
              \<and> (TemplateID q \<noteq> '''' \<or> HTML q \<noteq> '''' \<or> Text q \<noteq> '''')
              \<and> (TemplateID q = '''' \<longrightarrow> Subject q \<noteq> '''')))
   \<and> validateSendEmailRequest req \<in>
        {None,
         Some (Errorf ''request cannot be nil''),
         Some (Errorf ''to.email is required''),
         Some (Errorf ''from.email is required''),
         Some (Errorf ''either templateId or html/text content must be provided''),
         Some (Errorf ''subject is required when not using a template'')}
   \<and> distinct [''request cannot be nil'', ''to.email is required'', ''from.email is required'',
        ''either templateId or html/text content must be provided'',
        ''subject is required when not using a template'']
   \<and> (Email (To r) \<noteq> '''' \<and> Email (From r) \<noteq> '''' \<and> TemplateID r \<noteq> ''''
        \<longrightarrow> validateSendEmailRequest (Some r) = None)"
  by (cases req) (auto simp add: validateSendEmailRequest_def)

theorem validateSendEmailRequest_checks_witness:
  "validateSendEmailRequest (Some
      \<lparr>To = \<lparr>Email = ''a@example.com'', Name = ''''\<rparr>,
       From = \<lparr>Email = ''b@example.com'', Name = ''''\<rparr>,
       Subject = '''', HTML = '''', Text = '''', TemplateID = ''tmpl_1'',
       ReplyTo = None, UnsubscribeGroupID = '''', Categories = [],
       DynamicData = Map.empty, ScheduledAt = '''', CampaignName = '''', Test = False\<rparr>) = None
   \<and> validateSendEmailRequest None = Some (Errorf ''request cannot be nil'')"
  using validateSendEmailRequest_checks [of None
      "\<lparr>To = \<lparr>Email = ''a@example.com'', Name = ''''\<rparr>,
        From = \<lparr>Email = ''b@example.com'', Name = ''''\<rparr>,
        Subject = '''', HTML = '''', Text = '''', TemplateID = ''tmpl_1'',
        ReplyTo = None, UnsubscribeGroupID = '''', Categories = [],
        DynamicData = Map.empty, ScheduledAt = '''', CampaignName = '''', Test = False\<rparr>"]
  by simp

subsection \<open>Client construction\<close>

text \<open>
  Claim C3, as the code has it. NewClientWithConfig copies the API key, replaces an empty
  BaseURL by the default and keeps a non-empty one. When HTTPClient is nil it allocates a
  new http.Client whose Timeout is Config.Timeout, or the default when that is zero. When
  HTTPClient is supplied, that very client is used and the store is left as it was: its
  own Timeout stays in effect and Config.Timeout is not read.
\<close>

theorem NewClientWithConfig_defaults:
  "NewClientWithConfig config h = (c, h') \<Longrightarrow>
   apiKey c = APIKey config
   \<and> baseURL c = (if BaseURL config = '''' then DefaultBaseURL else BaseURL config)
   \<and> (HTTPClient config = None \<longrightarrow>
        httpClient c = Some (length h)
        \<and> h' = h @ [\<lparr>http_Other = 0,
                      http_Timeout = (if Timeout config = 0 then DefaultTimeout
                                      else Timeout config)\<rparr>])
   \<and> (\<forall>p. HTTPClient config = Some p \<longrightarrow> httpClient c = Some p \<and> h' = h)"
  by (auto simp add: NewClientWithConfig_def new_http_Client_def Let_def split: if_splits)

theorem NewClientWithConfig_defaults_witness:
  "NewClientWithConfig \<lparr>APIKey = ''k'', BaseURL = '''', HTTPClient = None, Timeout = 0\<rparr> []
     = (\<lparr>apiKey = ''k'', baseURL = DefaultBaseURL, httpClient = Some 0\<rparr>,
        [\<lparr>http_Other = 0, http_Timeout = DefaultTimeout\<rparr>])"
  using NewClientWithConfig_defaults [of
      "\<lparr>APIKey = ''k'', BaseURL = '''', HTTPClient = None, Timeout = 0\<rparr>" "[]"
      "fst (NewClientWithConfig
              \<lparr>APIKey = ''k'', BaseURL = '''', HTTPClient = None, Timeout = 0\<rparr> [])"
      "snd (NewClientWithConfig
              \<lparr>APIKey = ''k'', BaseURL = '''', HTTPClient = None, Timeout = 0\<rparr> [])"]
  by (simp add: NewClientWithConfig_def new_http_Client_def)

text \<open>
  Claim C3 as stated fails: with an http.Client of timeout 5 s supplied together with
  Timeout = 10 s, the constructed client holds the supplied http.Client, whose timeout is
  still 5 s.
\<close>

theorem NewClientWithConfig_timeout_counterexample:
  "NewClientWithConfig
      \<lparr>APIKey = ''k'', BaseURL = '''', HTTPClient = Some 0, Timeout = 10 * Second\<rparr>
      [\<lparr>http_Other = 7, http_Timeout = 5 * Second\<rparr>]
     = (\<lparr>apiKey = ''k'', baseURL = DefaultBaseURL, httpClient = Some 0\<rparr>,
        [\<lparr>http_Other = 7, http_Timeout = 5 * Second\<rparr>])
   \<and> 5 * Second \<noteq> 10 * Second"
  by (simp add: NewClientWithConfig_def Second_def)

text \<open>
  Claim C10. Applied to a client that holds an http.Client at address p, WithTimeout
  returns the same client value (API key, base URL and pointer unchanged) and a store of
  the same size in which the object at p has the new Timeout and its other fields as
  before, every other object being untouched. Hence WithHTTPClient hc followed by
  WithTimeout t writes t into the caller's object hc in place; in NewClientWithOptions the
  only allocation is the default http.Client made before the options run.
\<close>

theorem WithTimeout_frame:
  "httpClient c = Some p \<Longrightarrow> p < length h \<Longrightarrow>
   (\<exists>h'. WithTimeout t (c, h) = Some (c, h')
      \<and> length h' = length h
      \<and> http_Timeout (h' ! p) = t
      \<and> http_Other (h' ! p) = http_Other (h ! p)
      \<and> (\<forall>q. q \<noteq> p \<longrightarrow> h' ! q = h ! q))
   \<and> (hc < length h \<longrightarrow>
        applyOptions [WithHTTPClient (Some hc), WithTimeout t] (c, h)
          = Some (c\<lparr>httpClient := Some hc\<rparr>, h[hc := (h ! hc)\<lparr>http_Timeout := t\<rparr>])
        \<and> NewClientWithOptions key [WithHTTPClient (Some hc), WithTimeout t] h
          = Some (\<lparr>apiKey = key, baseURL = DefaultBaseURL, httpClient = Some hc\<rparr>,
                  (h @ [\<lparr>http_Other = 0, http_Timeout = DefaultTimeout\<rparr>])
                     [hc := (h ! hc)\<lparr>http_Timeout := t\<rparr>]))"
  by (auto simp add: WithTimeout_def WithHTTPClient_def NewClientWithOptions_def
      new_http_Client_def nth_append)

theorem WithTimeout_frame_witness:
  "WithTimeout (60 * Second)
      (\<lparr>apiKey = ''k'', baseURL = DefaultBaseURL, httpClient = Some 0\<rparr>,
       [\<lparr>http_Other = 7, http_Timeout = 5 * Second\<rparr>])
     = Some (\<lparr>apiKey = ''k'', baseURL = DefaultBaseURL, httpClient = Some 0\<rparr>,
             [\<lparr>http_Other = 7, http_Timeout = 60 * Second\<rparr>])
   \<and> NewClientWithOptions ''k'' [WithHTTPClient (Some 0), WithTimeout (60 * Second)]
        [\<lparr>http_Other = 7, http_Timeout = 5 * Second\<rparr>]
     = Some (\<lparr>apiKey = ''k'', baseURL = DefaultBaseURL, httpClient = Some 0\<rparr>,
             [\<lparr>http_Other = 7, http_Timeout = 60 * Second\<rparr>,
              \<lparr>http_Other = 0, http_Timeout = DefaultTimeout\<rparr>])"
  using WithTimeout_frame [of
      "\<lparr>apiKey = ''k'', baseURL = DefaultBaseURL, httpClient = Some 0\<rparr>" 0
      "[\<lparr>http_Other = 7, http_Timeout = 5 * Second\<rparr>]" "60 * Second" 0 "''k''"]
  by (simp add: WithTimeout_def)

subsection \<open>Outbound headers\<close>

text \<open>
  Claim C8. A call of doRequest hands at most one request to the transport. That request
  carries Authorization (Bearer and the API key), Content-Type (application/json) and
  User-Agent (autosend-go/1.0.0), and it carries Idempotency-Key if and only if the key
  given to doRequest is not empty, the value then being that key. A request sent by
  SendEmail never carries Idempotency-Key. The request is indeed handed over whenever the
  body can be encoded, the request can be built and the client holds an http.Client.
\<close>

theorem doRequest_idempotency_header:
  "(snd (doRequest env h c ctx method path body key sent) = sent
    \<or> (\<exists>req. snd (doRequest env h c ctx method path body key sent) = sent @ [req]
         \<and> Header req ''Authorization'' = Some [''Bearer '' @ apiKey c]
         \<and> Header req ''Content-Type'' = Some [''application/json'']
         \<and> Header req ''User-Agent'' = Some [''autosend-go/1.0.0'']
         \<and> (Header req ''Idempotency-Key'' \<noteq> None \<longleftrightarrow> key \<noteq> '''')
         \<and> (key \<noteq> '''' \<longrightarrow> Header req ''Idempotency-Key'' = Some [key])))
   \<and> (snd (SendEmail env h c ctx r sent) = sent
    \<or> (\<exists>req. snd (SendEmail env h c ctx r sent) = sent @ [req]
         \<and> Header req ''Authorization'' = Some [''Bearer '' @ apiKey c]
         \<and> Header req ''Content-Type'' = Some [''application/json'']
         \<and> Header req ''User-Agent'' = Some [''autosend-go/1.0.0'']
         \<and> Header req ''Idempotency-Key'' = None))
   \<and> ((\<exists>j. json_Marshal env b = Inr j)
        \<and> NewRequest_error env ctx method (baseURL c @ path) = None
        \<and> httpClient c \<noteq> None
        \<longrightarrow> length (snd (doRequest env h c ctx method path (Some b) key sent))
              = Suc (length sent))"
proof -
  have a: "snd (doRequest env h c ctx method path body key sent) = sent
    \<or> (\<exists>req. snd (doRequest env h c ctx method path body key sent) = sent @ [req]
         \<and> Header req ''Authorization'' = Some [''Bearer '' @ apiKey c]
         \<and> Header req ''Content-Type'' = Some [''application/json'']
         \<and> Header req ''User-Agent'' = Some [''autosend-go/1.0.0'']
         \<and> (Header req ''Idempotency-Key'' \<noteq> None \<longleftrightarrow> key \<noteq> '''')
         \<and> (key \<noteq> '''' \<longrightarrow> Header req ''Idempotency-Key'' = Some [key]))"
    using doRequest_sent [of env h c ctx "method" path body key sent] by auto
  have b: "snd (SendEmail env h c ctx r sent) = sent
    \<or> (\<exists>req. snd (SendEmail env h c ctx r sent) = sent @ [req]
         \<and> Header req ''Authorization'' = Some [''Bearer '' @ apiKey c]
         \<and> Header req ''Content-Type'' = Some [''application/json'']
         \<and> Header req ''User-Agent'' = Some [''autosend-go/1.0.0'']
         \<and> Header req ''Idempotency-Key'' = None)"
    using doRequest_sent [of env h c ctx "''POST''" "''/mails/send''" r "''''" sent]
      SendEmailWithIdempotency_sent [of env h c ctx r "''''" sent]
    unfolding SendEmail_def by auto
  have c: "(\<exists>j. json_Marshal env b = Inr j)
        \<and> NewRequest_error env ctx method (baseURL c @ path) = None
        \<and> httpClient c \<noteq> None
        \<longrightarrow> length (snd (doRequest env h c ctx method path (Some b) key sent))
              = Suc (length sent)"
    using doRequest_dispatch [where body = "Some b" and env = env and ctx = ctx
        and meth = "method" and c = c and path = path and h = h and key = key and sent = sent]
    by auto
  from a b c show ?thesis by blast
qed

theorem doRequest_idempotency_header_witness:
  "Header (last (snd (doRequest (fixture_env (fixture_response 200 Map.empty ''{}''))
       fixture_heap fixture_client () ''POST'' ''/mails/send'' (Some fixture_request)
       ''order-1'' []))) ''Idempotency-Key'' = Some [''order-1'']
   \<and> Header (last (snd (SendEmail (fixture_env (fixture_response 200 Map.empty ''{}''))
       fixture_heap fixture_client () (Some fixture_request) []))) ''Idempotency-Key'' = None
   \<and> length (snd (SendEmail (fixture_env (fixture_response 200 Map.empty ''{}''))
       fixture_heap fixture_client () (Some fixture_request) [])) = 1"
  using doRequest_idempotency_header [of "fixture_env (fixture_response 200 Map.empty ''{}'')"
      fixture_heap fixture_client "()" "''POST''" "''/mails/send''" "Some fixture_request"
      "''order-1''" "[]" "Some fixture_request" fixture_request]
  by (simp add: SendEmail_def SendEmailWithIdempotency_def validateSendEmailRequest_def
      doRequest_def fixture_env_def fixture_response_def fixture_client_def fixture_heap_def
      fixture_request_def Header_Set_def canonical_keys)

subsection \<open>Sending an email\<close>

text \<open>
  Claim C6. When validation fails, SendEmailWithIdempotency and SendEmail return that
  validation error and the list of requests handed to the transport is as it was before
  the call. Validation fails for a nil request and for every request with an empty
  to.email, an empty from.email, no templateId, html or text, or neither templateId nor
  subject.
\<close>

theorem validation_before_transport:
  "(validateSendEmailRequest req = Some err \<longrightarrow>
      SendEmailWithIdempotency env h c ctx req key sent = (Err err, sent)
      \<and> SendEmail env h c ctx req sent = (Err err, sent))
   \<and> (Email (To r) = '''' \<or> Email (From r) = ''''
        \<or> (TemplateID r = '''' \<and> HTML r = '''' \<and> Text r = '''')
        \<or> (TemplateID r = '''' \<and> Subject r = '''')
      \<longrightarrow> validateSendEmailRequest (Some r) \<noteq> None
          \<and> snd (SendEmailWithIdempotency env h c ctx (Some r) key sent) = sent
          \<and> snd (SendEmail env h c ctx (Some r) sent) = sent)
   \<and> validateSendEmailRequest None \<noteq> None
   \<and> snd (SendEmailWithIdempotency env h c ctx None key sent) = sent
   \<and> snd (SendEmail env h c ctx None sent) = sent"
  by (auto simp add: SendEmail_def SendEmailWithIdempotency_def validateSendEmailRequest_def)

theorem validation_before_transport_witness:
  "SendEmail (fixture_env (fixture_response 200 Map.empty ''{}'')) fixture_heap fixture_client ()
      (Some (fixture_request\<lparr>TemplateID := ''''\<rparr>)) []
     = (Err (Errorf ''either templateId or html/text content must be provided''), [])
   \<and> snd (SendEmail (fixture_env (fixture_response 200 Map.empty ''{}'')) fixture_heap
        fixture_client () (Some fixture_request) []) \<noteq> []"
  using validation_before_transport [of "Some (fixture_request\<lparr>TemplateID := ''''\<rparr>)"
      "Errorf ''either templateId or html/text content must be provided''"
      "fixture_env (fixture_response 200 Map.empty ''{}'')" fixture_heap fixture_client "()"
      "''''" "[]" "fixture_request\<lparr>TemplateID := ''''\<rparr>"]
  by (simp add: SendEmail_def SendEmailWithIdempotency_def validateSendEmailRequest_def
      doRequest_def fixture_env_def fixture_response_def fixture_client_def fixture_heap_def
      fixture_request_def)



text \<open>
  Claim C9. Once validation has passed and doRequest has returned a response of status
  200 whose body is read and decoded into a SendEmailResponse, the call returns exactly
  that decoded value and no error, whatever its Success and Message fields hold.
\<close>

theorem SendEmailWithIdempotency_decodes:
  "validateSendEmailRequest req = None \<Longrightarrow>
   doRequest env h c ctx ''POST'' ''/mails/send'' req key sent = (Ok resp, sent') \<Longrightarrow>
   Response_StatusCode resp = 200 \<Longrightarrow>
   Response_Body resp = Inr body \<Longrightarrow>
   Unmarshal_SendEmailResponse env body = Inr r \<Longrightarrow>
   SendEmailWithIdempotency env h c ctx req key sent = (Ok r, sent')"
  by (simp add: SendEmailWithIdempotency_def)

theorem SendEmailWithIdempotency_decodes_witness:
  \<open>fst (SendEmailWithIdempotency
          (fixture_env (fixture_response 200 Map.empty ''{"success":false}''))
          fixture_heap fixture_client () (Some fixture_request) ''order-1'' [])
     = Ok \<lparr>Success = False, Response_Message = '''',
           Data = \<lparr>EmailID = '''', Status = '''', QueuedAt = 0\<rparr>\<rparr>\<close>
  using SendEmailWithIdempotency_decodes [of "Some fixture_request"
      \<open>fixture_env (fixture_response 200 Map.empty ''{"success":false}'')\<close>
      fixture_heap fixture_client "()" "''order-1''" "[]"
      \<open>fixture_response 200 Map.empty ''{"success":false}''\<close>
      \<open>snd (doRequest (fixture_env (fixture_response 200 Map.empty ''{"success":false}''))
        fixture_heap fixture_client () ''POST'' ''/mails/send'' (Some fixture_request)
        ''order-1'' [])\<close>
      \<open>''{"success":false}''\<close>
      "\<lparr>Success = False, Response_Message = '''',
        Data = \<lparr>EmailID = '''', Status = '''', QueuedAt = 0\<rparr>\<rparr>"]
  by (simp add: validateSendEmailRequest_def doRequest_def fixture_env_def
      fixture_response_def fixture_client_def fixture_heap_def fixture_request_def)

subsection \<open>The error classifier\<close>

text \<open>
  Claim C1, as the code has it. handleErrorResponse always returns an error value. When
  the body is read and decodes as an ErrorResponse, the value is an APIError with the
  status code of the response, the message, field errors and retry-after of the decoded
  body, and a RateLimitInfo. When the body is read and does not decode, the value is a
  plain error, not an APIError: its text is "API error (status N): " followed by the raw
  body, and it has no fields. When the body cannot be read, the read error is returned
  wrapped as "failed to read error response".
\<close>

theorem handleErrorResponse_cases:
  "(Response_Body resp = Inl err \<longrightarrow>
      handleErrorResponse env resp = Wrapf ''failed to read error response: '' err)
   \<and> (Response_Body resp = Inr body \<and> Unmarshal_ErrorResponse env body = Inl err \<longrightarrow>
        handleErrorResponse env resp
          = Errorf (''API error (status '' @ formatInt (Response_StatusCode resp) @ ''): ''
                      @ body)
        \<and> asAPIError (handleErrorResponse env resp) = None
        \<and> error_text (handleErrorResponse env resp)
          = ''API error (status '' @ formatInt (Response_StatusCode resp) @ ''): '' @ body)
   \<and> (Response_Body resp = Inr body \<and> Unmarshal_ErrorResponse env body = Inr errResp \<longrightarrow>
        handleErrorResponse env resp
          = APIErr \<lparr>StatusCode = Response_StatusCode resp,
                    Message = ErrorResponse_Message errResp,
                    Errors = ErrorResponse_Errors errResp,
                    RetryAfter = ErrorResponse_RetryAfter errResp,
                    RateLimitInfo = Some (parseRateLimitHeaders (Response_Header resp))\<rparr>)"
  by (simp add: handleErrorResponse_def)

theorem handleErrorResponse_cases_witness:
  \<open>asAPIError (handleErrorResponse (fixture_world)
       (fixture_response 400 Map.empty
          ''{"success":false,"message":"rate limited","retryAfter":5}''))
     = Some \<lparr>StatusCode = 400, Message = ''rate limited'', Errors = [], RetryAfter = 5,
             RateLimitInfo = Some \<lparr>Limit = 0, Remaining = 0, Reset = 0\<rparr>\<rparr>
   \<and> handleErrorResponse (fixture_world)
       \<lparr>Response_StatusCode = 502, Response_Header = Map.empty,
        Response_Body = Inl (Foreign ''unexpected EOF'')\<rparr>
     = Wrapf ''failed to read error response: '' (Foreign ''unexpected EOF'')\<close>
proof -
  have p: "parseRateLimitHeaders Map.empty = \<lparr>Limit = 0, Remaining = 0, Reset = 0\<rparr>"
    by (simp add: parseRateLimitHeaders_def Header_Get_def)
  show ?thesis
    using handleErrorResponse_cases [of
        \<open>fixture_response 400 Map.empty
           ''{"success":false,"message":"rate limited","retryAfter":5}''\<close>
        _ "fixture_world"
        \<open>''{"success":false,"message":"rate limited","retryAfter":5}''\<close>
        "\<lparr>ErrorResponse_Success = False, ErrorResponse_Message = ''rate limited'',
          ErrorResponse_Errors = [], ErrorResponse_RetryAfter = 5\<rparr>"]
      handleErrorResponse_cases [of
        "\<lparr>Response_StatusCode = 502, Response_Header = Map.empty,
          Response_Body = Inl (Foreign ''unexpected EOF'')\<rparr>"
        "Foreign ''unexpected EOF''" "fixture_world"]
    by (simp add: fixture_world_def fixture_env_def fixture_response_def p)
qed

text \<open>
  Claim C1 as stated fails: for a 502 response whose body is an HTML page, the result is
  a plain error with the status and the page in its text, and it is not an APIError.
\<close>

theorem handleErrorResponse_fallback_counterexample:
  "handleErrorResponse (fixture_env (fixture_response 502 Map.empty ''<html>Bad Gateway</html>''))
      (fixture_response 502 Map.empty ''<html>Bad Gateway</html>'')
     = Errorf ''API error (status 502): <html>Bad Gateway</html>''
   \<and> asAPIError (handleErrorResponse
        (fixture_env (fixture_response 502 Map.empty ''<html>Bad Gateway</html>''))
        (fixture_response 502 Map.empty ''<html>Bad Gateway</html>'')) = None"
proof -
  have f: "formatInt 502 = ''502''"
    by code_simp
  show ?thesis
    by (simp add: handleErrorResponse_def fixture_env_def fixture_response_def f)
qed




end
